theory Spec2Isabelle
  imports Main
begin

section \<open>The OAuth callback route handler\<close>

text \<open>
  The route handler \<^verbatim>\<open>GET\<close> of \<^verbatim>\<open>/auth/callback\<close> reads two query parameters of the
  request URL, may call the identity provider once, and answers with
  \<^verbatim>\<open>NextResponse.redirect\<close>. The provider is not code of this repository: it is a
  parameter of the model, a function from the provider's state and a code to the
  \<^verbatim>\<open>{ error }\<close> object the handler destructures (\<open>None\<close> is JavaScript's \<^verbatim>\<open>null\<close>)
  and the provider's new state (which holds the session cookies it writes).
\<close>

datatype error = Error (message: string)

text \<open>The parsed \<^verbatim>\<open>new URL(request.url)\<close>: the two parts the handler destructures.\<close>

record request =
  origin :: string
  searchParams :: "(string \<times> string) list"

text \<open>\<^verbatim>\<open>URLSearchParams.get\<close>: the first value stored under the name, or \<^verbatim>\<open>null\<close>.\<close>

definition searchParams_get :: "(string \<times> string) list \<Rightarrow> string \<Rightarrow> string option" where
  "searchParams_get ps name = map_of ps name"

text \<open>
  A response, as far as the handler builds one, and what a call of the handler ends in:
  it returns a response, or an exception leaves it. The handler has no
  \<^verbatim>\<open>try\<close>, so an exception thrown inside it is its outcome.
\<close>

record NextResponse =
  status :: nat
  location :: "string option"
  body :: "string option"

datatype outcome = Returned NextResponse | Thrown

text \<open>
  \<^verbatim>\<open>NextResponse.redirect(url)\<close> first validates its argument with the platform's URL
  parser, \<^verbatim>\<open>String(new URL(String(url)))\<close>, and throws when the string does not parse;
  otherwise it builds the temporary redirect (status 307, no body) whose Location header
  is the serialised URL, which need not be the string given. The parser is not code of
  this repository: it is the parameter \<open>parse\<close>, \<open>None\<close> when \<^verbatim>\<open>new URL\<close> throws and
  the serialisation otherwise. One fact about it is built in: \<open>origin\<close> is the
  serialised origin of the request's own http(s) URL, and such an origin followed by the
  fixed path \<^verbatim>\<open>/auth/auth-code-error\<close> parses and serialises to itself.
\<close>

type_synonym url_parser = "string \<Rightarrow> string option"

definition validateURL :: "url_parser \<Rightarrow> request \<Rightarrow> string \<Rightarrow> string option" where
  "validateURL parse req u =
     (if u = origin req @ ''/auth/auth-code-error'' then Some u else parse u)"

definition NextResponse_redirect :: "url_parser \<Rightarrow> request \<Rightarrow> string \<Rightarrow> outcome" where
  "NextResponse_redirect parse req u =
     (case validateURL parse req u of
        None \<Rightarrow> Thrown
      | Some href \<Rightarrow> Returned \<lparr>status = 307, location = Some href, body = None\<rparr>)"

text \<open>
  The server side of one request: the provider's state and the log of the codes sent to
  \<^verbatim>\<open>supabase.auth.exchangeCodeForSession\<close>, in order.
\<close>

record 'p server =
  provider :: 'p
  exchanged :: "string list"

type_synonym 'p exchange = "'p \<Rightarrow> string \<Rightarrow> error option \<times> 'p"

definition exchangeCodeForSession ::
  "'p exchange \<Rightarrow> string \<Rightarrow> 'p server \<Rightarrow> error option \<times> 'p server" where
  "exchangeCodeForSession exch c srv =
     (let (err, p') = exch (provider srv) c
      in (err, \<lparr>provider = p', exchanged = exchanged srv @ [c]\<rparr>))"

text \<open>
  The handler. \<^verbatim>\<open>if (code)\<close> is JavaScript truthiness: the string is neither \<^verbatim>\<open>null\<close>
  nor empty. \<^verbatim>\<open>searchParams.get("next") ?? "/"\<close> replaces only \<^verbatim>\<open>null\<close>. When the
  redirect to the destination throws, the exchange has already been made: the server
  state returned with \<open>Thrown\<close> is the one after it.
\<close>

definition next_param :: "request \<Rightarrow> string" where
  "next_param req =
     (case searchParams_get (searchParams req) ''next'' of None \<Rightarrow> ''/'' | Some n \<Rightarrow> n)"

definition error_page :: "url_parser \<Rightarrow> request \<Rightarrow> outcome" where
  "error_page parse req = NextResponse_redirect parse req (origin req @ ''/auth/auth-code-error'')"

definition GET ::
  "url_parser \<Rightarrow> 'p exchange \<Rightarrow> request \<Rightarrow> 'p server \<Rightarrow> outcome \<times> 'p server" where
  "GET parse exch req srv =
     (case searchParams_get (searchParams req) ''code'' of
        None \<Rightarrow> (error_page parse req, srv)
      | Some c \<Rightarrow>
          if c \<noteq> [] then
            (let (err, srv') = exchangeCodeForSession exch c srv
             in if err = None
                then (NextResponse_redirect parse req (origin req @ next_param req), srv')
                else (error_page parse req, srv'))
          else (error_page parse req, srv))"

text \<open>
  Modelled from the spec: a provider whose codes are single-use (``codes are single-use by
  provider contract''). Its state is the list of issued codes not yet consumed; the
  provider itself is an external service.
\<close>

definition single_use :: "string list exchange" where
  "single_use issued c =
     (if c \<in> set issued then (None, removeAll c issued)
      else (Some (Error ''invalid_grant''), issued))"

text \<open>
  A stand-in for the URL parser in the concrete runs. It decides the strings that
  continue \<^verbatim>\<open>http://localhost:3000/\<close> with lower-case letters, digits, hyphens,
  underscores and slashes: by the URL standard each of them parses and serialises to
  itself. Every other string it refuses. That is the standard's answer for
  \<^verbatim>\<open>http://localhost:3000dashboard\<close>, where a letter continues the port, but not for
  every string; the runs apply it to no other.
\<close>

fun strip_prefix :: "string \<Rightarrow> string \<Rightarrow> string option" where
  "strip_prefix [] u = Some u"
| "strip_prefix (p # ps) [] = None"
| "strip_prefix (p # ps) (c # cs) = (if p = c then strip_prefix ps cs else None)"

definition plain_path_chars :: string where
  "plain_path_chars = ''abcdefghijklmnopqrstuvwxyz0123456789-_/''"

definition localhost_parse :: url_parser where
  "localhost_parse u =
     (case strip_prefix ''http://localhost:3000/'' u of
        None \<Rightarrow> None
      | Some rest \<Rightarrow>
          if list_all (\<lambda>c. c \<in> set plain_path_chars) rest then Some u else None)"

definition fresh_server :: "'p \<Rightarrow> 'p server" where
  "fresh_server p = \<lparr>provider = p, exchanged = []\<rparr>"

definition callback :: "(string \<times> string) list \<Rightarrow> request" where
  "callback ps = \<lparr>origin = ''http://localhost:3000'', searchParams = ps\<rparr>"



section \<open>The bookmark controller\<close>

text \<open>
  \<^verbatim>\<open>BookmarkClient\<close> is a React component: six state hooks, one effect that runs on mount,
  \<^verbatim>\<open>loadBookmarks\<close> and four event handlers (\<^verbatim>\<open>handleSignIn\<close>, which only starts the
  provider's redirect, is left out). A handler reads the state of the render it was created in and calls
  setters that store absolute values, so the model passes the state and returns it
  updated. The Supabase client is not code of this repository: the backend is a record of
  functions over its own state \<open>'w\<close>, each returning the object the controller
  destructures, and the client logs every call it sends, in order. A handler is run to
  its end, its remote calls answered one after the other.
\<close>

text \<open>\<^verbatim>\<open>user\<close> is typed \<^verbatim>\<open>any\<close>; the controller reads only \<^verbatim>\<open>user.id\<close>.\<close>

record auth_user =
  ident :: string

record Bookmark =
  bookmark_id :: int
  bookmark_url :: string
  bookmark_title :: string
  user_id :: string
  created_at :: "string option"

text \<open>The component's state hooks (the client itself is the record \<open>client\<close> below).\<close>

record state =
  user :: "auth_user option"
  bookmarks :: "Bookmark list"
  url :: string
  title :: string
  loading :: bool
  errorMsg :: "string option"

definition initial_state :: state where
  "initial_state =
     \<lparr>user = None, bookmarks = [], url = [], title = [], loading = True, errorMsg = None\<rparr>"

text \<open>The object passed to \<^verbatim>\<open>insert\<close>, and the query \<^verbatim>\<open>loadBookmarks\<close> builds.\<close>

datatype new_row = NewRow (row_url: string) (row_title: string) (row_user_id: string)

record select_query =
  from_table :: string
  columns :: string
  order_column :: string
  ascending :: bool

text \<open>
  The callback given to \<^verbatim>\<open>.on("postgres_changes", ...)\<close> is the closure
  \<^verbatim>\<open>() => { loadBookmarks(); }\<close>; closures are values of a datatype, run by an
  interpreter below.
\<close>

datatype listener = CallLoadBookmarks

record channel =
  topic :: string
  event :: string
  schema :: string
  table_name :: string
  filter_expr :: string
  on_change :: listener

datatype remote_call =
    GetUser
  | SignOut
  | Select select_query
  | Insert string new_row
  | Delete string int
  | Subscribe channel
  | RemoveChannel channel

record 'w backend =
  auth_getUser :: "'w \<Rightarrow> auth_user option \<times> 'w"
  auth_signOut :: "'w \<Rightarrow> error option \<times> 'w"
  db_select :: "select_query \<Rightarrow> 'w \<Rightarrow> (error + Bookmark list) \<times> 'w"
  db_insert :: "new_row \<Rightarrow> 'w \<Rightarrow> error option \<times> 'w"
  db_delete :: "int \<Rightarrow> 'w \<Rightarrow> error option \<times> 'w"

text \<open>
  The client: the backend's state, the calls sent so far, and the channels that are
  subscribed and not removed.
\<close>

record 'w client =
  remote :: 'w
  calls :: "remote_call list"
  channels :: "channel list"

definition getUser :: "'w backend \<Rightarrow> 'w client \<Rightarrow> auth_user option \<times> 'w client" where
  "getUser B cl =
     (let (u, x) = auth_getUser B (remote cl)
      in (u, cl\<lparr>remote := x, calls := calls cl @ [GetUser]\<rparr>))"

definition signOut :: "'w backend \<Rightarrow> 'w client \<Rightarrow> error option \<times> 'w client" where
  "signOut B cl =
     (let (err, x) = auth_signOut B (remote cl)
      in (err, cl\<lparr>remote := x, calls := calls cl @ [SignOut]\<rparr>))"

definition select_rows ::
  "'w backend \<Rightarrow> select_query \<Rightarrow> 'w client \<Rightarrow> (error + Bookmark list) \<times> 'w client" where
  "select_rows B q cl =
     (let (res, x) = db_select B q (remote cl)
      in (res, cl\<lparr>remote := x, calls := calls cl @ [Select q]\<rparr>))"

definition insert_row :: "'w backend \<Rightarrow> new_row \<Rightarrow> 'w client \<Rightarrow> error option \<times> 'w client" where
  "insert_row B r cl =
     (let (err, x) = db_insert B r (remote cl)
      in (err, cl\<lparr>remote := x, calls := calls cl @ [Insert ''bookmarks'' r]\<rparr>))"

definition delete_row :: "'w backend \<Rightarrow> int \<Rightarrow> 'w client \<Rightarrow> error option \<times> 'w client" where
  "delete_row B i cl =
     (let (err, x) = db_delete B i (remote cl)
      in (err, cl\<lparr>remote := x, calls := calls cl @ [Delete ''bookmarks'' i]\<rparr>))"

text \<open>
  Modelled from the spec: the change-notification channel of the client library,
  ``subscribe(table, filter)'' and ``unsubscribe(handle)''. Subscribing adds the channel
  to the open ones, removing takes it out.
\<close>

definition subscribe :: "channel \<Rightarrow> 'w client \<Rightarrow> channel \<times> 'w client" where
  "subscribe ch cl = (ch, cl\<lparr>calls := calls cl @ [Subscribe ch], channels := channels cl @ [ch]\<rparr>)"

definition removeChannel :: "channel \<Rightarrow> 'w client \<Rightarrow> 'w client" where
  "removeChannel ch cl =
     cl\<lparr>calls := calls cl @ [RemoveChannel ch], channels := remove1 ch (channels cl)\<rparr>"

subsection \<open>loadBookmarks\<close>

definition bookmarks_query :: select_query where
  "bookmarks_query =
     \<lparr>from_table = ''bookmarks'', columns = ''id, url, title, user_id, created_at'',
      order_column = ''created_at'', ascending = False\<rparr>"

definition loadBookmarks :: "'w backend \<Rightarrow> 'w client \<Rightarrow> state \<Rightarrow> 'w client \<times> state" where
  "loadBookmarks B cl s =
     (let s1 = s\<lparr>errorMsg := None\<rparr>;
          (res, cl') = select_rows B bookmarks_query cl
      in case res of
           Inr data \<Rightarrow> (cl', s1\<lparr>bookmarks := data, loading := False\<rparr>)
         | Inl err \<Rightarrow>
             (cl', s1\<lparr>errorMsg := Some (''Failed to load bookmarks: '' @ message err),
                       loading := False\<rparr>))"

subsection \<open>The effect: init, its listener and the clean-up functions\<close>

datatype event_type = INSERT | UPDATE | DELETE

record payload =
  eventType :: event_type
  new_record :: "Bookmark option"
  old_record :: "Bookmark option"

fun run_listener ::
  "'w backend \<Rightarrow> listener \<Rightarrow> payload \<Rightarrow> 'w client \<Rightarrow> state \<Rightarrow> 'w client \<times> state" where
  "run_listener B CallLoadBookmarks p cl s = loadBookmarks B cl s"

text \<open>
  The two closures the source writes as clean-up functions: \<^verbatim>\<open>() => { mounted = false; }\<close>,
  returned by the effect, and \<^verbatim>\<open>() => { supabase.removeChannel(channel); }\<close>, returned by
  the asynchronous \<^verbatim>\<open>init\<close>.
\<close>

datatype cleanup = SetMountedFalse | CallRemoveChannel channel

fun run_cleanup :: "cleanup \<Rightarrow> bool \<times> 'w client \<Rightarrow> bool \<times> 'w client" where
  "run_cleanup SetMountedFalse (mounted, cl) = (False, cl)"
| "run_cleanup (CallRemoveChannel ch) (mounted, cl) = (mounted, removeChannel ch cl)"

definition bookmarks_changes :: "auth_user \<Rightarrow> channel" where
  "bookmarks_changes u =
     \<lparr>topic = ''bookmarks_changes'', event = ''*'', schema = ''public'',
      table_name = ''bookmarks'', filter_expr = ''user_id=eq.'' @ ident u,
      on_change = CallLoadBookmarks\<rparr>"

text \<open>
  \<^verbatim>\<open>init\<close>; \<open>mounted\<close> is the value of the flag when \<^verbatim>\<open>getUser\<close> has answered. The
  first component of the result is the value the function returns (\<open>None\<close> for
  \<^verbatim>\<open>undefined\<close>).
\<close>

definition init ::
  "'w backend \<Rightarrow> bool \<Rightarrow> 'w client \<Rightarrow> state \<Rightarrow> cleanup option \<times> 'w client \<times> state" where
  "init B mounted cl s =
     (let (u, cl1) = getUser B cl
      in if mounted then
           (let s1 = s\<lparr>user := u\<rparr>
            in case u of
                 Some usr \<Rightarrow>
                   (let (cl2, s2) = loadBookmarks B cl1 s1;
                        (ch, cl3) = subscribe (bookmarks_changes usr) cl2
                    in (Some (CallRemoveChannel ch), cl3, s2))
               | None \<Rightarrow> (None, cl1, s1\<lparr>loading := False\<rparr>))
         else (None, cl1, s))"

text \<open>
  The effect body: it sets the flag, calls \<^verbatim>\<open>init()\<close> as a statement, so the promise and
  the value it resolves to are dropped, and returns the closure that clears the flag.
  Here \<^verbatim>\<open>init\<close> runs to its end while the component is mounted.
\<close>

definition useEffect :: "'w backend \<Rightarrow> 'w client \<Rightarrow> state \<Rightarrow> cleanup \<times> 'w client \<times> state" where
  "useEffect B cl s =
     (let mounted = True;
          (returned, cl', s') = init B mounted cl s
      in (SetMountedFalse, cl', s'))"

text \<open>Mounting the component and unmounting it: React runs the clean-up the effect returned.\<close>

definition mount_then_unmount :: "'w backend \<Rightarrow> 'w client \<Rightarrow> state \<Rightarrow> bool \<times> 'w client \<times> state" where
  "mount_then_unmount B cl s =
     (let (c, cl', s') = useEffect B cl s;
          (mounted, cl'') = run_cleanup c (True, cl')
      in (mounted, cl'', s'))"

subsection \<open>The handlers\<close>

definition handleSignOut :: "'w backend \<Rightarrow> 'w client \<Rightarrow> state \<Rightarrow> 'w client \<times> state" where
  "handleSignOut B cl s =
     (let (res, cl') = signOut B cl
      in (cl', s\<lparr>user := None, bookmarks := []\<rparr>))"

text \<open>
  \<^verbatim>\<open>if (!url || !title || !user) return;\<close>: an empty string and \<^verbatim>\<open>null\<close> are falsy. The
  test of \<^verbatim>\<open>user\<close> is written as the case distinction that binds the user whose
  \<^verbatim>\<open>id\<close> the insert carries; the three tests have no effect, so their order does not
  matter. \<^verbatim>\<open>e.preventDefault()\<close> acts on the event, not on the controller.
\<close>

definition handleAddBookmark :: "'w backend \<Rightarrow> 'w client \<Rightarrow> state \<Rightarrow> 'w client \<times> state" where
  "handleAddBookmark B cl s =
     (case user s of
        None \<Rightarrow> (cl, s)
      | Some usr \<Rightarrow>
          if url s = [] \<or> title s = [] then (cl, s)
          else
            (let s1 = s\<lparr>errorMsg := None\<rparr>;
                 (err, cl1) = insert_row B (NewRow (url s) (title s) (ident usr)) cl
             in case err of
                  Some e \<Rightarrow> (cl1, s1\<lparr>errorMsg := Some (''Error adding bookmark: '' @ message e)\<rparr>)
                | None \<Rightarrow> loadBookmarks B cl1 (s1\<lparr>url := [], title := []\<rparr>)))"

definition handleDeleteBookmark ::
  "'w backend \<Rightarrow> int \<Rightarrow> 'w client \<Rightarrow> state \<Rightarrow> 'w client \<times> state" where
  "handleDeleteBookmark B i cl s =
     (let (err, cl1) = delete_row B i cl
      in case err of
           Some e \<Rightarrow> (cl1, s\<lparr>errorMsg := Some (''Error deleting bookmark: '' @ message e)\<rparr>)
         | None \<Rightarrow> loadBookmarks B cl1 s)"

subsection \<open>A backend in memory\<close>

text \<open>
  Modelled from the spec: the managed data backend and the session provider of the
  spec's external interfaces, as one table in memory with the row-level policy ``a
  caller reads, inserts and deletes only rows it owns''. It answers the concrete runs
  below; the theorems hold for every backend.
\<close>

record mem =
  session :: "auth_user option"
  table_rows :: "Bookmark list"
  online :: bool

definition owned_by :: "auth_user option \<Rightarrow> Bookmark \<Rightarrow> bool" where
  "owned_by who b = (case who of None \<Rightarrow> False | Some u \<Rightarrow> user_id b = ident u)"

definition mem_backend :: "mem backend" where
  "mem_backend =
     \<lparr>auth_getUser = (\<lambda>m. (session m, m)),
      auth_signOut = (\<lambda>m. if online m then (None, m\<lparr>session := None\<rparr>)
                          else (Some (Error ''Failed to fetch''), m)),
      db_select = (\<lambda>q m. if online m then (Inr (filter (owned_by (session m)) (table_rows m)), m)
                         else (Inl (Error ''Failed to fetch''), m)),
      db_insert = (\<lambda>r m.
         if online m then
           if session m = Some \<lparr>ident = row_user_id r\<rparr> then
             (None, m\<lparr>table_rows :=
                \<lparr>bookmark_id = int (length (table_rows m)) + 1, bookmark_url = row_url r,
                 bookmark_title = row_title r, user_id = row_user_id r, created_at = None\<rparr>
                # table_rows m\<rparr>)
           else (Some (Error ''new row violates row-level security policy''), m)
         else (Some (Error ''Failed to fetch''), m)),
      db_delete = (\<lambda>i m.
         if online m \<and> filter (\<lambda>b. bookmark_id b = i \<and> owned_by (session m) b) (table_rows m) \<noteq> [] then
           (None, m\<lparr>table_rows := filter (\<lambda>b. bookmark_id b \<noteq> i) (table_rows m)\<rparr>)
         else (Some (Error ''no row deleted''), m))\<rparr>"

definition fresh_client :: "'w \<Rightarrow> 'w client" where
  "fresh_client x = \<lparr>remote = x, calls = [], channels = []\<rparr>"

definition alice :: auth_user where
  "alice = \<lparr>ident = ''alice''\<rparr>"

definition bobs_row :: Bookmark where
  "bobs_row =
     \<lparr>bookmark_id = 7, bookmark_url = ''https://example.org'', bookmark_title = ''Example'',
      user_id = ''bob'', created_at = None\<rparr>"

definition alices_row :: Bookmark where
  "alices_row =
     \<lparr>bookmark_id = 3, bookmark_url = ''https://isabelle.in.tum.de'', bookmark_title = ''Isabelle'',
      user_id = ''alice'', created_at = None\<rparr>"

definition alice_online :: mem where
  "alice_online = \<lparr>session = Some alice, table_rows = [alices_row, bobs_row], online = True\<rparr>"

definition alice_offline :: mem where
  "alice_offline = \<lparr>session = Some alice, table_rows = [alices_row, bobs_row], online = False\<rparr>"

definition alice_form :: state where
  "alice_form =
     \<lparr>user = Some alice, bookmarks = [alices_row], url = ''example.com'', title = ''Example'',
      loading = False, errorMsg = None\<rparr>"

section \<open>Properties of the callback handler\<close>

lemma error_page_returned:
  "error_page parse req =
     Returned \<lparr>status = 307, location = Some (origin req @ ''/auth/auth-code-error''), body = None\<rparr>"
  by (simp add: error_page_def NextResponse_redirect_def validateURL_def)

lemma GET_no_code:
  "searchParams_get (searchParams req) ''code'' = None
   \<Longrightarrow> GET parse exch req srv = (error_page parse req, srv)"
  by (simp add: GET_def)

lemma GET_empty_code:
  "searchParams_get (searchParams req) ''code'' = Some []
   \<Longrightarrow> GET parse exch req srv = (error_page parse req, srv)"
  by (simp add: GET_def)

lemma GET_code:
  assumes "searchParams_get (searchParams req) ''code'' = Some c" and "c \<noteq> []"
    and "exch (provider srv) c = (err, p')"
  shows "GET parse exch req srv =
     (if err = None then NextResponse_redirect parse req (origin req @ next_param req)
      else error_page parse req,
      \<lparr>provider = p', exchanged = exchanged srv @ [c]\<rparr>)"
  using assms by (simp add: GET_def exchangeCodeForSession_def)

lemma searchParams_get_filter:
  "searchParams_get (filter (\<lambda>(k, v). k \<noteq> name) ps) name = None"
  by (induction ps) (auto simp: searchParams_get_def)






text \<open>
  When the destination does not parse, the handler still answers with the redirect to
  the error page unless the exchange was made and succeeded; then, and only then, it
  throws.
\<close>

lemma GET_throws_iff:
  "fst (GET parse exch req srv) = Thrown \<longleftrightarrow>
     (\<exists>c. searchParams_get (searchParams req) ''code'' = Some c \<and> c \<noteq> []
          \<and> fst (exch (provider srv) c) = None)
     \<and> validateURL parse req (origin req @ next_param req) = None"
proof (cases "searchParams_get (searchParams req) ''code''")
  case None
  then show ?thesis
    by (simp add: GET_no_code error_page_returned)
next
  case (Some c)
  show ?thesis
  proof (cases "c = []")
    case True
    with Some show ?thesis
      by (simp add: GET_empty_code error_page_returned)
  next
    case False
    obtain err p' where e: "exch (provider srv) c = (err, p')"
      by (cases "exch (provider srv) c")
    from Some False e show ?thesis
      by (simp add: GET_code error_page_returned NextResponse_redirect_def split: option.splits)
  qed
qed

text \<open>
  Claim C2. When the request has no \<open>code\<close> query parameter, the handler sends nothing to
  the provider (its state and the log of exchanges are the ones it started with) and
  answers with the redirect to the error page, whatever the other parameters are.
\<close>

theorem GET_without_code:
  assumes "searchParams_get (searchParams req) ''code'' = None"
  shows "GET parse exch req srv =
           (Returned \<lparr>status = 307, location = Some (origin req @ ''/auth/auth-code-error''),
                      body = None\<rparr>, srv)"
  using assms by (simp add: GET_no_code error_page_returned)

theorem GET_without_code_witness:
  "searchParams_get (searchParams (callback [(''next'', ''/dashboard''), (''state'', ''xyz'')])) ''code'' = None
   \<and> GET localhost_parse single_use (callback [(''next'', ''/dashboard''), (''state'', ''xyz'')])
       (fresh_server [''abc''])
     = (Returned \<lparr>status = 307, location = Some ''http://localhost:3000/auth/auth-code-error'',
                  body = None\<rparr>,
        \<lparr>provider = [''abc''], exchanged = []\<rparr>)"
  using GET_without_code [of "callback [(''next'', ''/dashboard''), (''state'', ''xyz'')]"
      localhost_parse single_use "fresh_server [''abc'']"]
  by (simp add: searchParams_get_def callback_def fresh_server_def)




text \<open>
  Claim C10. When the \<open>code\<close> query parameter is present and equal to the empty string,
  the handler sends nothing to the provider and answers with the redirect to the error
  page; this is what it does for the same request with the \<open>code\<close> parameter taken out.
\<close>

theorem GET_empty_code_as_absent:
  assumes "searchParams_get (searchParams req) ''code'' = Some []"
  shows "GET parse exch req srv =
           (Returned \<lparr>status = 307, location = Some (origin req @ ''/auth/auth-code-error''),
                      body = None\<rparr>, srv)
       \<and> GET parse exch (req\<lparr>searchParams := filter (\<lambda>(k, v). k \<noteq> ''code'') (searchParams req)\<rparr>) srv
           = GET parse exch req srv"
  using assms
  by (simp add: GET_empty_code GET_no_code searchParams_get_filter error_page_returned)

theorem GET_empty_code_as_absent_witness:
  "searchParams_get (searchParams (callback [(''code'', ''''), (''next'', ''/dashboard'')])) ''code'' = Some []
   \<and> GET localhost_parse single_use (callback [(''code'', ''''), (''next'', ''/dashboard'')])
       (fresh_server [''abc''])
       = (Returned \<lparr>status = 307, location = Some ''http://localhost:3000/auth/auth-code-error'',
                    body = None\<rparr>, fresh_server [''abc''])
   \<and> GET localhost_parse single_use (callback [(''next'', ''/dashboard'')]) (fresh_server [''abc''])
       = GET localhost_parse single_use (callback [(''code'', ''''), (''next'', ''/dashboard'')])
           (fresh_server [''abc''])"
  using GET_empty_code_as_absent [of "callback [(''code'', ''''), (''next'', ''/dashboard'')]"
      localhost_parse single_use "fresh_server [''abc'']"]
  by (simp add: searchParams_get_def callback_def)

section \<open>Properties of the bookmark controller\<close>

lemma loadBookmarks_client:
  "fst (loadBookmarks B cl s) =
     cl\<lparr>remote := snd (db_select B bookmarks_query (remote cl)),
        calls := calls cl @ [Select bookmarks_query]\<rparr>"
  by (simp add: loadBookmarks_def select_rows_def Let_def split: prod.splits sum.splits)

lemma loadBookmarks_bookmarks:
  "bookmarks (snd (loadBookmarks B cl s)) =
     (case fst (db_select B bookmarks_query (remote cl)) of
        Inr data \<Rightarrow> data | Inl err \<Rightarrow> bookmarks s)"
  by (simp add: loadBookmarks_def select_rows_def Let_def split: prod.splits sum.splits)

lemma loadBookmarks_frame:
  "user (snd (loadBookmarks B cl s)) = user s"
  "url (snd (loadBookmarks B cl s)) = url s"
  "title (snd (loadBookmarks B cl s)) = title s"
  by (simp_all add: loadBookmarks_def select_rows_def Let_def split: prod.splits sum.splits)

subsection \<open>Initialisation and the subscription\<close>

text \<open>
  Claim C5. When the component is mounted and \<^verbatim>\<open>getUser\<close> answers with a user,
  \<^verbatim>\<open>init\<close> sends, after \<^verbatim>\<open>getUser\<close>, the select of \<^verbatim>\<open>loadBookmarks\<close>, ordered by
  \<^verbatim>\<open>created_at\<close> descending, and then exactly one subscription: to every event
  (\<^verbatim>\<open>*\<close>) of the table, filtered by \<^verbatim>\<open>user_id=eq.\<close> followed by the user's identifier.
  Its listener runs \<^verbatim>\<open>loadBookmarks\<close> for every notification, whatever the payload and
  its event type, and \<^verbatim>\<open>loadBookmarks\<close> stores the selected rows as they are, or keeps
  the list when the select fails: nothing of the payload reaches the state. (The query
  names no user: which rows it returns is the backend's policy.)
\<close>

theorem init_with_session:
  assumes "auth_getUser B (remote cl) = (Some usr, x)"
  shows "fst (init B True cl s) = Some (CallRemoveChannel (bookmarks_changes usr))
       \<and> calls (fst (snd (init B True cl s)))
           = calls cl @ [GetUser, Select bookmarks_query, Subscribe (bookmarks_changes usr)]
       \<and> channels (fst (snd (init B True cl s))) = channels cl @ [bookmarks_changes usr]
       \<and> order_column bookmarks_query = ''created_at'' \<and> ascending bookmarks_query = False
       \<and> filter_expr (bookmarks_changes usr) = ''user_id=eq.'' @ ident usr
       \<and> event (bookmarks_changes usr) = ''*''
       \<and> (\<forall>p c t. run_listener B (on_change (bookmarks_changes usr)) p c t = loadBookmarks B c t)
       \<and> (\<forall>c t. bookmarks (snd (loadBookmarks B c t)) =
             (case fst (db_select B bookmarks_query (remote c)) of
                Inr data \<Rightarrow> data | Inl err \<Rightarrow> bookmarks t))"
proof -
  let ?cl1 = "cl\<lparr>remote := x, calls := calls cl @ [GetUser]\<rparr>"
  let ?s1 = "s\<lparr>user := Some usr\<rparr>"
  obtain cl2 s2 where l: "loadBookmarks B ?cl1 ?s1 = (cl2, s2)"
    by (cases "loadBookmarks B ?cl1 ?s1")
  have cl2: "cl2 = fst (loadBookmarks B ?cl1 ?s1)"
    by (simp add: l)
  have i: "init B True cl s =
      (Some (CallRemoveChannel (bookmarks_changes usr)),
       cl2\<lparr>calls := calls cl2 @ [Subscribe (bookmarks_changes usr)],
           channels := channels cl2 @ [bookmarks_changes usr]\<rparr>, s2)"
    using assms l by (simp add: init_def getUser_def subscribe_def)
  have c: "calls cl2 = calls cl @ [GetUser, Select bookmarks_query]"
    and h: "channels cl2 = channels cl"
    by (simp_all add: cl2 loadBookmarks_client)
  show ?thesis
    by (simp add: i c h loadBookmarks_bookmarks bookmarks_query_def bookmarks_changes_def)
qed

theorem init_with_session_witness:
  "auth_getUser mem_backend (remote (fresh_client alice_online)) = (Some alice, alice_online)
   \<and> calls (fst (snd (init mem_backend True (fresh_client alice_online) initial_state)))
       = [GetUser, Select bookmarks_query, Subscribe (bookmarks_changes alice)]
   \<and> channels (fst (snd (init mem_backend True (fresh_client alice_online) initial_state)))
       = [bookmarks_changes alice]"
  using init_with_session [of mem_backend "fresh_client alice_online" alice alice_online initial_state]
  by (simp add: mem_backend_def fresh_client_def alice_online_def)

text \<open>
  The closure \<^verbatim>\<open>init\<close> returns would remove the channel if it were run.
\<close>

lemma returned_cleanup_removes:
  "run_cleanup (CallRemoveChannel ch) (m, cl)
     = (m, cl\<lparr>calls := calls cl @ [RemoveChannel ch], channels := remove1 ch (channels cl)\<rparr>)"
  by (simp add: removeChannel_def)

text \<open>
  It is not run: the effect drops what \<^verbatim>\<open>init\<close> returns, and the clean-up React runs on
  unmount only clears the flag. Unmounting sends no call and leaves the open channels as
  they are, for every backend.
\<close>

lemma unmount_sends_nothing:
  "fst (snd (mount_then_unmount B cl s)) = fst (snd (useEffect B cl s))"
  by (simp add: mount_then_unmount_def useEffect_def split: prod.splits)

text \<open>
  Claim C4 says that unmounting after the subscription was opened removes the channel.
  The code does not: alice is signed in, the component mounts, \<^verbatim>\<open>init\<close> subscribes, the
  component unmounts. The calls sent are \<^verbatim>\<open>getUser\<close>, the select and the subscription;
  there is no \<^verbatim>\<open>removeChannel\<close>, and the channel is still open.
\<close>

theorem unmount_leaves_channel_open:
  "mount_then_unmount mem_backend (fresh_client alice_online) initial_state
     = (False,
        \<lparr>remote = alice_online,
         calls = [GetUser, Select bookmarks_query, Subscribe (bookmarks_changes alice)],
         channels = [bookmarks_changes alice]\<rparr>,
        \<lparr>user = Some alice, bookmarks = [alices_row], url = [], title = [], loading = False,
         errorMsg = None\<rparr>)"
  by (simp add: mount_then_unmount_def useEffect_def init_def getUser_def loadBookmarks_def
      select_rows_def subscribe_def mem_backend_def fresh_client_def alice_online_def
      initial_state_def owned_by_def alice_def bobs_row_def alices_row_def)

subsection \<open>Sign out\<close>

text \<open>
  Claim C9. After \<^verbatim>\<open>handleSignOut\<close>, which sends one \<^verbatim>\<open>signOut\<close>, the local user is
  \<^verbatim>\<open>null\<close> and the local bookmark list is empty, whatever the call answered, error or
  not.
\<close>

theorem handleSignOut_clears:
  "user (snd (handleSignOut B cl s)) = None
   \<and> bookmarks (snd (handleSignOut B cl s)) = []
   \<and> calls (fst (handleSignOut B cl s)) = calls cl @ [SignOut]"
  by (simp add: handleSignOut_def signOut_def split: prod.splits)

subsection \<open>Creating a bookmark\<close>

text \<open>
  Claim C7. When the URL field is empty, or the title field is empty, or no user is
  known, \<^verbatim>\<open>handleAddBookmark\<close> sends no call (the client, with its log of calls, is the
  one it started with) and leaves the whole state as it was.
\<close>

theorem handleAddBookmark_guard:
  assumes "url s = [] \<or> title s = [] \<or> user s = None"
  shows "handleAddBookmark B cl s = (cl, s)"
  using assms by (auto simp: handleAddBookmark_def split: option.splits)

theorem handleAddBookmark_guard_witness:
  "handleAddBookmark mem_backend (fresh_client alice_online) (alice_form\<lparr>url := []\<rparr>)
     = (fresh_client alice_online, alice_form\<lparr>url := []\<rparr>)
   \<and> handleAddBookmark mem_backend (fresh_client alice_online) (alice_form\<lparr>title := []\<rparr>)
     = (fresh_client alice_online, alice_form\<lparr>title := []\<rparr>)
   \<and> handleAddBookmark mem_backend (fresh_client alice_online) (alice_form\<lparr>user := None\<rparr>)
     = (fresh_client alice_online, alice_form\<lparr>user := None\<rparr>)"
  using handleAddBookmark_guard [of "alice_form\<lparr>url := []\<rparr>" mem_backend "fresh_client alice_online"]
    handleAddBookmark_guard [of "alice_form\<lparr>title := []\<rparr>" mem_backend "fresh_client alice_online"]
    handleAddBookmark_guard [of "alice_form\<lparr>user := None\<rparr>" mem_backend "fresh_client alice_online"]
  by simp

text \<open>
  Claim C6. When \<^verbatim>\<open>handleAddBookmark\<close> sends its insert (both fields filled, a user
  known) and the insert succeeds, both input fields are empty afterwards and the handler
  has sent the select of the refetch right after the insert, with no notification in
  between. When the insert fails, both fields keep the submitted values, the error
  message is \<^verbatim>\<open>Error adding bookmark: \<close> followed by the backend's message, and the insert
  is the only call sent: there is no second attempt.
\<close>

theorem handleAddBookmark_outcomes:
  assumes "url s \<noteq> []" and "title s \<noteq> []" and "user s = Some usr"
    and "db_insert B (NewRow (url s) (title s) (ident usr)) (remote cl) = (err, x)"
  shows "case err of
           None \<Rightarrow>
             url (snd (handleAddBookmark B cl s)) = [] \<and> title (snd (handleAddBookmark B cl s)) = []
             \<and> calls (fst (handleAddBookmark B cl s))
                 = calls cl @ [Insert ''bookmarks'' (NewRow (url s) (title s) (ident usr)),
                               Select bookmarks_query]
         | Some e \<Rightarrow>
             handleAddBookmark B cl s
               = (cl\<lparr>remote := x,
                     calls := calls cl @ [Insert ''bookmarks'' (NewRow (url s) (title s) (ident usr))]\<rparr>,
                  s\<lparr>errorMsg := Some (''Error adding bookmark: '' @ message e)\<rparr>)
             \<and> url (snd (handleAddBookmark B cl s)) = url s
             \<and> title (snd (handleAddBookmark B cl s)) = title s"
proof (cases err)
  case None
  with assms have "handleAddBookmark B cl s =
      loadBookmarks B (cl\<lparr>remote := x,
          calls := calls cl @ [Insert ''bookmarks'' (NewRow (url s) (title s) (ident usr))]\<rparr>)
        (s\<lparr>errorMsg := None, url := [], title := []\<rparr>)"
    by (simp add: handleAddBookmark_def insert_row_def)
  with None show ?thesis
    by (simp add: loadBookmarks_client loadBookmarks_frame)
next
  case (Some e)
  with assms show ?thesis
    by (simp add: handleAddBookmark_def insert_row_def)
qed

theorem handleAddBookmark_outcomes_witness:
  "url alice_form \<noteq> [] \<and> title alice_form \<noteq> [] \<and> user alice_form = Some alice
   \<and> fst (db_insert mem_backend (NewRow ''example.com'' ''Example'' ''alice'') alice_online) = None
   \<and> url (snd (handleAddBookmark mem_backend (fresh_client alice_online) alice_form)) = []
   \<and> title (snd (handleAddBookmark mem_backend (fresh_client alice_online) alice_form)) = []
   \<and> calls (fst (handleAddBookmark mem_backend (fresh_client alice_online) alice_form))
       = [Insert ''bookmarks'' (NewRow ''example.com'' ''Example'' ''alice''), Select bookmarks_query]
   \<and> db_insert mem_backend (NewRow ''example.com'' ''Example'' ''alice'') alice_offline
       = (Some (Error ''Failed to fetch''), alice_offline)
   \<and> handleAddBookmark mem_backend (fresh_client alice_offline) alice_form
       = (\<lparr>remote = alice_offline,
           calls = [Insert ''bookmarks'' (NewRow ''example.com'' ''Example'' ''alice'')],
           channels = []\<rparr>,
          alice_form\<lparr>errorMsg := Some ''Error adding bookmark: Failed to fetch''\<rparr>)"
proof -
  have f: "url alice_form = ''example.com''" "title alice_form = ''Example''"
    "user alice_form = Some alice" "ident alice = ''alice''"
    by (simp_all add: alice_form_def alice_def)
  obtain x where ok: "db_insert mem_backend (NewRow ''example.com'' ''Example'' ''alice'')
      (remote (fresh_client alice_online)) = (None, x)"
    by (simp add: mem_backend_def fresh_client_def alice_online_def alice_def)
  have ko: "db_insert mem_backend (NewRow ''example.com'' ''Example'' ''alice'')
      (remote (fresh_client alice_offline)) = (Some (Error ''Failed to fetch''), alice_offline)"
    by (simp add: mem_backend_def fresh_client_def alice_offline_def)
  note good = handleAddBookmark_outcomes [where s = alice_form and usr = alice and B = mem_backend
      and cl = "fresh_client alice_online" and err = None and x = x]
  note bad = handleAddBookmark_outcomes [where s = alice_form and usr = alice and B = mem_backend
      and cl = "fresh_client alice_offline" and err = "Some (Error ''Failed to fetch'')"
      and x = alice_offline]
  show ?thesis
    using good bad ok ko by (simp add: f fresh_client_def)
qed

subsection \<open>Deleting a bookmark\<close>

text \<open>
  Claim C8. When the delete call of \<^verbatim>\<open>handleDeleteBookmark\<close> returns an error, the
  error message is \<^verbatim>\<open>Error deleting bookmark: \<close> followed by the backend's message, the
  bookmark list is the one before the call, and the delete is the only call sent: no
  refetch follows.
\<close>

theorem handleDeleteBookmark_failure:
  assumes "db_delete B i (remote cl) = (Some e, x)"
  shows "handleDeleteBookmark B i cl s
           = (cl\<lparr>remote := x, calls := calls cl @ [Delete ''bookmarks'' i]\<rparr>,
              s\<lparr>errorMsg := Some (''Error deleting bookmark: '' @ message e)\<rparr>)
       \<and> bookmarks (snd (handleDeleteBookmark B i cl s)) = bookmarks s
       \<and> errorMsg (snd (handleDeleteBookmark B i cl s)) \<noteq> None"
  using assms by (simp add: handleDeleteBookmark_def delete_row_def)

text \<open>Alice asks to delete bookmark 7, which is Bob's: the backend refuses.\<close>

theorem handleDeleteBookmark_failure_witness:
  "db_delete mem_backend 7 (remote (fresh_client alice_online))
     = (Some (Error ''no row deleted''), alice_online)
   \<and> handleDeleteBookmark mem_backend 7 (fresh_client alice_online) alice_form
     = (\<lparr>remote = alice_online, calls = [Delete ''bookmarks'' 7], channels = []\<rparr>,
        alice_form\<lparr>errorMsg := Some ''Error deleting bookmark: no row deleted''\<rparr>)
   \<and> bookmarks (snd (handleDeleteBookmark mem_backend 7 (fresh_client alice_online) alice_form))
     = [alices_row]"
proof -
  have d: "db_delete mem_backend 7 (remote (fresh_client alice_online))
     = (Some (Error ''no row deleted''), alice_online)"
    by (simp add: mem_backend_def fresh_client_def alice_online_def owned_by_def alice_def
        bobs_row_def alices_row_def)
  show ?thesis
    using handleDeleteBookmark_failure [OF d, of alice_form] d
    by (simp add: fresh_client_def alice_form_def)
qed

end
